theory Spec2Isabelle
  imports Main
begin

section \<open>MarketController: values crossing the controller's boundary\<close>

text \<open>
  The embedding follows \<^verbatim>\<open>src/infrastructure/web/controllers/MarketController.ts\<close>.
  The controller has two handlers, \<^verbatim>\<open>getMarkets\<close> (the spec's listMarkets) and
  \<^verbatim>\<open>getMarketById\<close>. Each reads the request, awaits one use case inside a
  \<^verbatim>\<open>try\<close> block, and writes one JSON response on \<^verbatim>\<open>res\<close>; the
  \<^verbatim>\<open>catch\<close> block turns whatever was thrown into an error response.

  A JavaScript string is the \<open>string\<close> of its UTF-8 bytes, so that two strings are
  equal when their bytes are and the empty string is \<open>[]\<close>. A request value that
  may be \<^verbatim>\<open>undefined\<close> is a \<open>string option\<close>; the raw query is a map from keys to
  strings, as the casts \<^verbatim>\<open>as string\<close> of the source and the input type of the
  specification have it.
\<close>

type_synonym query = "string \<rightharpoonup> string"

subsection \<open>Thrown values\<close>

text \<open>
  Modelled from the spec: the class \<^verbatim>\<open>NotFoundError\<close> of
  \<^verbatim>\<open>shared/errors/DomainError\<close> is imported by the controller and is not among the
  source files. It is the "not found" kind of failure, a subclass of \<^verbatim>\<open>Error\<close>
  that carries a message.

  A \<^verbatim>\<open>catch (error)\<close> clause receives any value. The controller asks two questions
  of it, \<^verbatim>\<open>error instanceof NotFoundError\<close> and \<^verbatim>\<open>error instanceof Error\<close>,
  and reads \<^verbatim>\<open>error.message\<close> after a positive answer. So a thrown value is one of:
  an instance of \<^verbatim>\<open>NotFoundError\<close> with its message, any other instance of
  \<^verbatim>\<open>Error\<close> with its message, or a value that is no instance of \<^verbatim>\<open>Error\<close>
  at all: a thrown string, number or plain object. Such a value may still have a
  property \<^verbatim>\<open>message\<close>, as the object of \<^verbatim>\<open>throw {message: "custom"}\<close> has;
  \<open>NonError\<close> holds it when it is there.
\<close>

datatype thrown = NotFoundError string | OtherError string | NonError "string option"

subsection \<open>Numbers produced by parseInt\<close>

text \<open>
  \<^verbatim>\<open>parseInt\<close> returns a Number, that is a double. The doubles it can return are
  \<^verbatim>\<open>NaN\<close>, the two zeros, the two infinities, and the doubles whose value is an
  integer other than zero: \<open>Finite n\<close> is the double of value \<open>n\<close>, positive zero
  for \<open>n = 0\<close>.
\<close>

datatype jsnum = NaN | NegZero | Finite int | Infinity | NegInfinity

text \<open>
  The white space that \<^verbatim>\<open>parseInt\<close> skips in front of the number is the
  \<^verbatim>\<open>WhiteSpace\<close> and \<^verbatim>\<open>LineTerminator\<close> code points of ECMAScript, here by their
  UTF-8 bytes. One byte: TAB, LF, VT, FF, CR, SP. Two bytes: U+00A0. Three bytes:
  U+1680, U+2000 to U+200A, U+2028, U+2029, U+202F, U+205F, U+3000 and U+FEFF.
\<close>

definition isWhiteSpace1 :: "nat \<Rightarrow> bool" where
  "isWhiteSpace1 a = (a \<in> {0x09, 0x0A, 0x0B, 0x0C, 0x0D, 0x20})"

definition isWhiteSpace2 :: "nat \<Rightarrow> nat \<Rightarrow> bool" where
  "isWhiteSpace2 a b = (a = 0xC2 \<and> b = 0xA0)"

definition isWhiteSpace3 :: "nat \<Rightarrow> nat \<Rightarrow> nat \<Rightarrow> bool" where
  "isWhiteSpace3 a b c =
     (a = 0xE1 \<and> b = 0x9A \<and> c = 0x80
      \<or> a = 0xE2 \<and> b = 0x80 \<and>
          (0x80 \<le> c \<and> c \<le> 0x8A \<or> c = 0xA8 \<or> c = 0xA9 \<or> c = 0xAF)
      \<or> a = 0xE2 \<and> b = 0x81 \<and> c = 0x9F
      \<or> a = 0xE3 \<and> b = 0x80 \<and> c = 0x80
      \<or> a = 0xEF \<and> b = 0xBB \<and> c = 0xBF)"

text \<open>\<^verbatim>\<open>TrimString(inputString, start)\<close>: the string without its leading white space.\<close>

fun trimStart :: "string \<Rightarrow> string" where
  "trimStart [] = []"
| "trimStart (c # cs) =
     (if isWhiteSpace1 (of_char c) then trimStart cs
      else case cs of
        [] \<Rightarrow> c # cs
      | d # ds \<Rightarrow>
          if isWhiteSpace2 (of_char c) (of_char d) then trimStart ds
          else (case ds of
              [] \<Rightarrow> c # cs
            | e # es \<Rightarrow>
                if isWhiteSpace3 (of_char c) (of_char d) (of_char e) then trimStart es
                else c # cs))"

text \<open>
  The value of a digit in radix \<open>R\<close>: \<^verbatim>\<open>0-9\<close>, then \<^verbatim>\<open>a-z\<close> and
  \<^verbatim>\<open>A-Z\<close> for ten onwards; \<open>None\<close> for a byte that is no digit of that radix.
\<close>

definition digitValue :: "nat \<Rightarrow> char \<Rightarrow> nat option" where
  "digitValue R c =
     (let n = (of_char c :: nat);
          v = (if 48 \<le> n \<and> n \<le> 57 then Some (n - 48)
               else if 97 \<le> n \<and> n \<le> 122 then Some (n - 87)
               else if 65 \<le> n \<and> n \<le> 90 then Some (n - 55)
               else None)
      in case v of
           None \<Rightarrow> None
         | Some d \<Rightarrow> if d < R then Some d else None)"

text \<open>The integer that a string of digits denotes in radix \<open>R\<close>.\<close>

fun mathInt :: "nat \<Rightarrow> int \<Rightarrow> string \<Rightarrow> int" where
  "mathInt R acc [] = acc"
| "mathInt R acc (c # cs) =
     (case digitValue R c of
        None \<Rightarrow> acc
      | Some d \<Rightarrow> mathInt R (acc * int R + int d) cs)"

text \<open>
  The double of a positive integer \<open>n\<close>. A double holds 53 significant bits:
  \<open>excessBits n\<close> is the number of low bits of \<open>n\<close> beyond them, and
  \<open>roundToDouble n\<close> is \<open>n\<close> rounded to the nearest integer with those bits zero,
  a tie going to the even one; \<open>None\<close> when the result is \<open>2^1024\<close> or more,
  which no finite double is. This is the rounding of Node's engine. ECMAScript asks
  for it up to 20 significant decimal digits and lets an engine zero the digits after
  the 20th.
\<close>

function excessBits :: "int \<Rightarrow> nat" where
  "excessBits n = (if n < 2 ^ 53 then 0 else Suc (excessBits (n div 2)))"
  by pat_completeness auto
termination
  by (relation "measure nat") auto

declare excessBits.simps [simp del]

definition roundToDouble :: "int \<Rightarrow> int option" where
  "roundToDouble n =
     (let e = excessBits n;
          q = n div 2 ^ e;
          r = n mod 2 ^ e;
          q' = (if 2 ^ e < 2 * r \<or> (2 * r = 2 ^ e \<and> odd q) then q + 1 else q);
          v = q' * 2 ^ e
      in if v < 2 ^ 1024 then Some v else None)"

text \<open>
  The Number for a sign and the integer read: a zero keeps the sign, an integer too
  large for a double gives an infinity.
\<close>

definition toNumber :: "int \<Rightarrow> int \<Rightarrow> jsnum" where
  "toNumber sign n =
     (if n = 0 then (if sign = - 1 then NegZero else Finite 0)
      else case roundToDouble n of
             None \<Rightarrow> if sign = - 1 then NegInfinity else Infinity
           | Some v \<Rightarrow> Finite (sign * v))"

text \<open>
  \<^verbatim>\<open>parseInt(string)\<close> with no radix argument, step by step as ECMAScript defines
  it: skip leading white space; read a sign; a prefix \<^verbatim>\<open>0x\<close> or \<^verbatim>\<open>0X\<close> selects
  radix 16, otherwise the radix is 10; read digits up to the first byte that is
  not one; no digit gives \<^verbatim>\<open>NaN\<close>, and the digits read give the Number of their
  integer.
\<close>

definition parseInt :: "string \<Rightarrow> jsnum" where
  "parseInt inputString =
     (let S = trimStart inputString;
          sign = (if S \<noteq> [] \<and> hd S = CHR ''-'' then - 1 else (1 :: int));
          S = (if S \<noteq> [] \<and> (hd S = CHR ''+'' \<or> hd S = CHR ''-'') then tl S else S);
          hex = (take 2 S = ''0x'' \<or> take 2 S = ''0X'');
          R = (if hex then 16 else 10);
          S = (if hex then drop 2 S else S);
          Z = takeWhile (\<lambda>c. digitValue R c \<noteq> None) S
      in if Z = [] then NaN else toNumber sign (mathInt R 0 Z))"

subsection \<open>Filters, response bodies and envelopes\<close>

text \<open>
  Modelled from the spec: the type \<^verbatim>\<open>MarketFilters\<close> of
  \<^verbatim>\<open>domain/entities/Market\<close> is imported by the controller and is not among
  the source files. It has the optional fields \<^verbatim>\<open>status\<close> and
  \<^verbatim>\<open>creatorId\<close> (strings), \<^verbatim>\<open>limit\<close> and \<^verbatim>\<open>offset\<close> (Numbers),
  \<^verbatim>\<open>sortBy\<close> and \<^verbatim>\<open>sortOrder\<close> (strings); an absent field is left out.

  The controller makes the value as a plain object that starts empty and receives
  properties by key. It is therefore a map from property names to values, each a
  string or a Number, and which keys and values it holds is a matter of what the
  handler assigns.
\<close>

datatype jsval = JString string | JNumber jsnum

type_synonym MarketFilters = "string \<rightharpoonup> jsval"

text \<open>
  Modelled from the spec: the type \<^verbatim>\<open>MarketErrorResponseDto\<close> of
  \<^verbatim>\<open>application/dto/MarketDto\<close> is imported by the controller and is not among
  the source files. It is the error body \<^verbatim>\<open>{error: string, message?: string}\<close>.
  The controller always sets \<^verbatim>\<open>error\<close>, and sets \<^verbatim>\<open>message\<close> in the 404
  and 500 responses only.
\<close>

record MarketErrorResponseDto =
  error :: string
  message :: "string option"

text \<open>
  A JSON body is a DTO made by \<^verbatim>\<open>marketListToDto\<close> or \<^verbatim>\<open>marketToDto\<close>
  (of a type \<open>'d\<close> the controller does not look into) or an error body.
\<close>

datatype 'd body = Dto 'd | ErrorDto MarketErrorResponseDto

record 'd envelope =
  status :: nat
  body :: "'d body"

section \<open>Effects\<close>

text \<open>
  A handler returns nothing; what it does is call a use case and write on
  \<^verbatim>\<open>res\<close>. The state records both: \<open>calls\<close> are the arguments with which the use
  case has been executed, \<open>sent\<close> the envelopes written, each in order.

  The use cases (\<^verbatim>\<open>GetMarketsUseCase\<close>, \<^verbatim>\<open>GetMarketByIdUseCase\<close>) and the DTO
  mappings (\<^verbatim>\<open>marketListToDto\<close>, \<^verbatim>\<open>marketToDto\<close>) are collaborators of the
  controller, given to a handler as parameters: functions that either return a value
  (\<open>Inr\<close>) or throw (\<open>Inl\<close>). A rejected promise is a throw at the
  \<^verbatim>\<open>await\<close>. Every step of a handler returns or throws in the same way, so that
  a handler letting an exception out shows as \<open>Inl\<close> in its result.

  In this section and the two after it, writing on \<^verbatim>\<open>res\<close> and logging on the
  console return. The handlers are given again further down for a response object
  and a console whose calls may throw.
\<close>

record ('a, 'd) io =
  calls :: "'a list"
  sent :: "'d envelope list"

text \<open>\<^verbatim>\<open>res.status(code).json(b)\<close>: one more envelope written.\<close>

definition res_json :: "nat \<Rightarrow> 'd body \<Rightarrow> ('a, 'd) io \<Rightarrow> ('a, 'd) io" where
  "res_json code b s = s\<lparr>sent := sent s @ [\<lparr>status = code, body = b\<rparr>]\<rparr>"

text \<open>\<^verbatim>\<open>await useCase.execute(a)\<close>: the call is made, and returns or throws.\<close>

definition await_execute ::
  "('a \<Rightarrow> thrown + 'r) \<Rightarrow> 'a \<Rightarrow> ('a, 'd) io \<Rightarrow> (thrown + 'r) \<times> ('a, 'd) io" where
  "await_execute execute a s = (execute a, s\<lparr>calls := calls s @ [a]\<rparr>)"

section \<open>getMarkets\<close>

text \<open>
  A query parameter passes \<^verbatim>\<open>if (req.query[k])\<close> when it is present and not the
  empty string. \<open>whenTruthy v f x\<close> is the guarded statement: the body \<open>f\<close> runs on
  the string and the filters so far in that case, and the filters stay as they are
  otherwise.
\<close>

definition whenTruthy :: "string option \<Rightarrow> (string \<Rightarrow> 'x \<Rightarrow> 'x) \<Rightarrow> 'x \<Rightarrow> 'x" where
  "whenTruthy v f x = (case v of None \<Rightarrow> x | Some s \<Rightarrow> if s = [] then x else f s x)"

text \<open>Lines 45 to 75: the filters built from the query, one guarded assignment per key.\<close>

definition getMarkets_filters :: "query \<Rightarrow> MarketFilters" where
  "getMarkets_filters q =
     (let filters = Map.empty;
          filters = whenTruthy (q ''status'')
            (\<lambda>v filters. filters(''status'' \<mapsto> JString v)) filters;
          filters = whenTruthy (q ''creatorId'')
            (\<lambda>v filters. filters(''creatorId'' \<mapsto> JString v)) filters;
          filters = whenTruthy (q ''limit'')
            (\<lambda>v filters. filters(''limit'' \<mapsto> JNumber (parseInt v))) filters;
          filters = whenTruthy (q ''offset'')
            (\<lambda>v filters. filters(''offset'' \<mapsto> JNumber (parseInt v))) filters;
          filters = whenTruthy (q ''sortBy'')
            (\<lambda>sortBy filters.
               if sortBy = ''createTms'' \<or> sortBy = ''resolutionTime''
               then filters(''sortBy'' \<mapsto> JString sortBy) else filters) filters;
          filters = whenTruthy (q ''sortOrder'')
            (\<lambda>sortOrder filters.
               if sortOrder = ''asc'' \<or> sortOrder = ''desc''
               then filters(''sortOrder'' \<mapsto> JString sortOrder) else filters) filters
      in filters)"

text \<open>
  The \<^verbatim>\<open>try\<close> block: build the filters, await the use case, map the result to
  its DTO, answer 200. A throw of the use case or of the mapping leaves the block.
\<close>

definition getMarkets_try ::
  "(MarketFilters \<Rightarrow> thrown + 'r) \<Rightarrow> ('r \<Rightarrow> thrown + 'd) \<Rightarrow> query \<Rightarrow>
     (MarketFilters, 'd) io \<Rightarrow> (thrown + unit) \<times> (MarketFilters, 'd) io" where
  "getMarkets_try execute marketListToDto q s =
     (let filters = getMarkets_filters q in
      case await_execute execute filters s of
        (Inl e, s1) \<Rightarrow> (Inl e, s1)
      | (Inr result, s1) \<Rightarrow>
          (case marketListToDto result of
             Inl e \<Rightarrow> (Inl e, s1)
           | Inr response \<Rightarrow> (Inr (), res_json 200 (Dto response) s1)))"

text \<open>
  The \<^verbatim>\<open>catch\<close> block: always 500. The message is \<^verbatim>\<open>error.message\<close> for an
  instance of \<^verbatim>\<open>Error\<close> (which a \<^verbatim>\<open>NotFoundError\<close> is) and the fixed string
  otherwise. The \<^verbatim>\<open>console.error\<close> call writes a log line.
\<close>

definition getMarkets_catch ::
  "thrown \<Rightarrow> ('a, 'd) io \<Rightarrow> (thrown + unit) \<times> ('a, 'd) io" where
  "getMarkets_catch e s =
     (Inr (), res_json 500
        (ErrorDto \<lparr>error = ''Internal server error'',
                   message = Some (case e of
                                     NotFoundError m \<Rightarrow> m
                                   | OtherError m \<Rightarrow> m
                                   | NonError p \<Rightarrow> ''Unknown error'')\<rparr>) s)"

definition getMarkets ::
  "(MarketFilters \<Rightarrow> thrown + 'r) \<Rightarrow> ('r \<Rightarrow> thrown + 'd) \<Rightarrow> query \<Rightarrow>
     (MarketFilters, 'd) io \<Rightarrow> (thrown + unit) \<times> (MarketFilters, 'd) io" where
  "getMarkets execute marketListToDto q s =
     (case getMarkets_try execute marketListToDto q s of
        (Inl e, s1) \<Rightarrow> getMarkets_catch e s1
      | (Inr u, s1) \<Rightarrow> (Inr u, s1))"

section \<open>getMarketById\<close>

text \<open>
  The \<^verbatim>\<open>try\<close> block. \<^verbatim>\<open>!market_id\<close> holds for \<^verbatim>\<open>undefined\<close> and for
  the empty string: both answer 400 and return before the use case. Any other
  identifier goes to the use case as it is.
\<close>

definition getMarketById_try ::
  "(string \<Rightarrow> thrown + 'r) \<Rightarrow> ('r \<Rightarrow> thrown + 'd) \<Rightarrow> string option \<Rightarrow>
     (string, 'd) io \<Rightarrow> (thrown + unit) \<times> (string, 'd) io" where
  "getMarketById_try execute marketToDto market_id s =
     (let required = ErrorDto \<lparr>error = ''Market ID is required'', message = None\<rparr> in
      case market_id of
        None \<Rightarrow> (Inr (), res_json 400 required s)
      | Some ident \<Rightarrow>
          if ident = [] then (Inr (), res_json 400 required s)
          else
            (case await_execute execute ident s of
               (Inl e, s1) \<Rightarrow> (Inl e, s1)
             | (Inr result, s1) \<Rightarrow>
                 (case marketToDto result of
                    Inl e \<Rightarrow> (Inl e, s1)
                  | Inr response \<Rightarrow> (Inr (), res_json 200 (Dto response) s1))))"

text \<open>
  The \<^verbatim>\<open>catch\<close> block: 404 and return for a \<^verbatim>\<open>NotFoundError\<close>, 500 for
  everything else, with the message chosen as in \<^verbatim>\<open>getMarkets\<close>.
\<close>

definition getMarketById_catch ::
  "thrown \<Rightarrow> ('a, 'd) io \<Rightarrow> (thrown + unit) \<times> ('a, 'd) io" where
  "getMarketById_catch e s =
     (case e of
        NotFoundError m \<Rightarrow>
          (Inr (), res_json 404
             (ErrorDto \<lparr>error = ''Market not found'', message = Some m\<rparr>) s)
      | _ \<Rightarrow>
          (Inr (), res_json 500
             (ErrorDto \<lparr>error = ''Internal server error'',
                        message = Some (case e of
                                          NotFoundError m \<Rightarrow> m
                                        | OtherError m \<Rightarrow> m
                                        | NonError p \<Rightarrow> ''Unknown error'')\<rparr>) s))"

definition getMarketById ::
  "(string \<Rightarrow> thrown + 'r) \<Rightarrow> ('r \<Rightarrow> thrown + 'd) \<Rightarrow> string option \<Rightarrow>
     (string, 'd) io \<Rightarrow> (thrown + unit) \<times> (string, 'd) io" where
  "getMarketById execute marketToDto market_id s =
     (case getMarketById_try execute marketToDto market_id s of
        (Inl e, s1) \<Rightarrow> getMarketById_catch e s1
      | (Inr u, s1) \<Rightarrow> (Inr u, s1))"

section \<open>The handlers when writing or logging may throw\<close>

text \<open>
  \<^verbatim>\<open>res.status(code).json(b)\<close> and \<^verbatim>\<open>console.error\<close> are calls like any other,
  and in the \<^verbatim>\<open>catch\<close> block they stand outside every \<^verbatim>\<open>try\<close>. A runtime says
  which of them throw: \<open>json_throws env\<close> is the value thrown by the write of the
  envelope \<open>env\<close>, when that write throws, and \<open>console_error_throws e\<close> the value
  thrown by the logging of \<open>e\<close>, when that throws. A write that throws writes nothing.
  The \<^verbatim>\<open>instanceof\<close> tests and the reading of \<^verbatim>\<open>error.message\<close> return.

  The two handlers follow, statement by statement as above, with each write and each
  logging call being a step that returns or throws.
\<close>

record 'd runtime =
  json_throws :: "'d envelope \<Rightarrow> thrown option"
  console_error_throws :: "thrown \<Rightarrow> thrown option"

definition res_json_rt ::
  "'d runtime \<Rightarrow> nat \<Rightarrow> 'd body \<Rightarrow> ('a, 'd) io \<Rightarrow> (thrown + unit) \<times> ('a, 'd) io" where
  "res_json_rt rt code b s =
     (case json_throws rt \<lparr>status = code, body = b\<rparr> of
        Some x \<Rightarrow> (Inl x, s)
      | None \<Rightarrow> (Inr (), res_json code b s))"

definition console_error_rt ::
  "'d runtime \<Rightarrow> thrown \<Rightarrow> ('a, 'd) io \<Rightarrow> (thrown + unit) \<times> ('a, 'd) io" where
  "console_error_rt rt e s =
     (case console_error_throws rt e of
        Some x \<Rightarrow> (Inl x, s)
      | None \<Rightarrow> (Inr (), s))"

definition getMarkets_try_rt ::
  "'d runtime \<Rightarrow> (MarketFilters \<Rightarrow> thrown + 'r) \<Rightarrow> ('r \<Rightarrow> thrown + 'd) \<Rightarrow> query \<Rightarrow>
     (MarketFilters, 'd) io \<Rightarrow> (thrown + unit) \<times> (MarketFilters, 'd) io" where
  "getMarkets_try_rt rt execute marketListToDto q s =
     (let filters = getMarkets_filters q in
      case await_execute execute filters s of
        (Inl e, s1) \<Rightarrow> (Inl e, s1)
      | (Inr result, s1) \<Rightarrow>
          (case marketListToDto result of
             Inl e \<Rightarrow> (Inl e, s1)
           | Inr response \<Rightarrow> res_json_rt rt 200 (Dto response) s1))"

definition getMarkets_catch_rt ::
  "'d runtime \<Rightarrow> thrown \<Rightarrow> ('a, 'd) io \<Rightarrow> (thrown + unit) \<times> ('a, 'd) io" where
  "getMarkets_catch_rt rt e s =
     (case console_error_rt rt e s of
        (Inl x, s1) \<Rightarrow> (Inl x, s1)
      | (Inr u, s1) \<Rightarrow>
          res_json_rt rt 500
            (ErrorDto \<lparr>error = ''Internal server error'',
                       message = Some (case e of
                                         NotFoundError m \<Rightarrow> m
                                       | OtherError m \<Rightarrow> m
                                       | NonError p \<Rightarrow> ''Unknown error'')\<rparr>) s1)"

definition getMarkets_rt ::
  "'d runtime \<Rightarrow> (MarketFilters \<Rightarrow> thrown + 'r) \<Rightarrow> ('r \<Rightarrow> thrown + 'd) \<Rightarrow> query \<Rightarrow>
     (MarketFilters, 'd) io \<Rightarrow> (thrown + unit) \<times> (MarketFilters, 'd) io" where
  "getMarkets_rt rt execute marketListToDto q s =
     (case getMarkets_try_rt rt execute marketListToDto q s of
        (Inl e, s1) \<Rightarrow> getMarkets_catch_rt rt e s1
      | (Inr u, s1) \<Rightarrow> (Inr u, s1))"

definition getMarketById_try_rt ::
  "'d runtime \<Rightarrow> (string \<Rightarrow> thrown + 'r) \<Rightarrow> ('r \<Rightarrow> thrown + 'd) \<Rightarrow> string option \<Rightarrow>
     (string, 'd) io \<Rightarrow> (thrown + unit) \<times> (string, 'd) io" where
  "getMarketById_try_rt rt execute marketToDto market_id s =
     (let required = ErrorDto \<lparr>error = ''Market ID is required'', message = None\<rparr> in
      case market_id of
        None \<Rightarrow> res_json_rt rt 400 required s
      | Some ident \<Rightarrow>
          if ident = [] then res_json_rt rt 400 required s
          else
            (case await_execute execute ident s of
               (Inl e, s1) \<Rightarrow> (Inl e, s1)
             | (Inr result, s1) \<Rightarrow>
                 (case marketToDto result of
                    Inl e \<Rightarrow> (Inl e, s1)
                  | Inr response \<Rightarrow> res_json_rt rt 200 (Dto response) s1)))"

definition getMarketById_catch_rt ::
  "'d runtime \<Rightarrow> thrown \<Rightarrow> ('a, 'd) io \<Rightarrow> (thrown + unit) \<times> ('a, 'd) io" where
  "getMarketById_catch_rt rt e s =
     (case console_error_rt rt e s of
        (Inl x, s1) \<Rightarrow> (Inl x, s1)
      | (Inr u, s1) \<Rightarrow>
          (case e of
             NotFoundError m \<Rightarrow>
               res_json_rt rt 404
                 (ErrorDto \<lparr>error = ''Market not found'', message = Some m\<rparr>) s1
           | _ \<Rightarrow>
               res_json_rt rt 500
                 (ErrorDto \<lparr>error = ''Internal server error'',
                            message = Some (case e of
                                              NotFoundError m \<Rightarrow> m
                                            | OtherError m \<Rightarrow> m
                                            | NonError p \<Rightarrow> ''Unknown error'')\<rparr>) s1))"

definition getMarketById_rt ::
  "'d runtime \<Rightarrow> (string \<Rightarrow> thrown + 'r) \<Rightarrow> ('r \<Rightarrow> thrown + 'd) \<Rightarrow> string option \<Rightarrow>
     (string, 'd) io \<Rightarrow> (thrown + unit) \<times> (string, 'd) io" where
  "getMarketById_rt rt execute marketToDto market_id s =
     (case getMarketById_try_rt rt execute marketToDto market_id s of
        (Inl e, s1) \<Rightarrow> getMarketById_catch_rt rt e s1
      | (Inr u, s1) \<Rightarrow> (Inr u, s1))"

section \<open>What a handler run amounts to\<close>

text \<open>
  One run of \<^verbatim>\<open>getMarkets\<close>: the use case is executed once, with the filters built
  from the query; then comes the 200 answer, or the \<^verbatim>\<open>catch\<close> block on the
  value thrown by the use case or by the DTO mapping.
\<close>

lemma getMarkets_run:
  "getMarkets execute marketListToDto q s =
     (let s1 = s\<lparr>calls := calls s @ [getMarkets_filters q]\<rparr> in
      case execute (getMarkets_filters q) of
        Inl e \<Rightarrow> getMarkets_catch e s1
      | Inr r \<Rightarrow>
          (case marketListToDto r of
             Inl e \<Rightarrow> getMarkets_catch e s1
           | Inr d \<Rightarrow> (Inr (), res_json 200 (Dto d) s1)))"
  by (simp add: getMarkets_def getMarkets_try_def await_execute_def Let_def split: sum.split)

lemma getMarkets_calls:
  "calls (snd (getMarkets execute marketListToDto q s)) = calls s @ [getMarkets_filters q]"
  by (simp add: getMarkets_run getMarkets_catch_def res_json_def Let_def split: sum.split)

lemma getMarkets_sent:
  "\<exists>env. getMarkets execute marketListToDto q s =
       (Inr (), s\<lparr>calls := calls s @ [getMarkets_filters q], sent := sent s @ [env]\<rparr>)
     \<and> (status env = 200 \<or> status env = 500)"
  by (cases "execute (getMarkets_filters q)";
      cases "case execute (getMarkets_filters q) of
               Inl e \<Rightarrow> Inl e | Inr r \<Rightarrow> marketListToDto r")
    (auto simp add: getMarkets_run getMarkets_catch_def res_json_def Let_def)

text \<open>The envelope written depends on the outcome of the two collaborators only.\<close>

lemma getMarkets_reply:
  "sent (snd (getMarkets execute marketListToDto q s)) =
     sent s @
       [case (case execute (getMarkets_filters q) of
                Inl e \<Rightarrow> Inl e
              | Inr r \<Rightarrow> marketListToDto r) of
          Inl e \<Rightarrow>
            \<lparr>status = 500,
             body = ErrorDto
               \<lparr>error = ''Internal server error'',
                message = Some (case e of NotFoundError m \<Rightarrow> m
                                | OtherError m \<Rightarrow> m
                                | NonError p \<Rightarrow> ''Unknown error'')\<rparr>\<rparr>
        | Inr d \<Rightarrow> \<lparr>status = 200, body = Dto d\<rparr>]"
  by (simp add: getMarkets_run getMarkets_catch_def res_json_def Let_def split: sum.split)

text \<open>The same for \<^verbatim>\<open>getMarketById\<close>, once the identifier has passed the check.\<close>

lemma getMarketById_run:
  "ident \<noteq> [] \<Longrightarrow>
   getMarketById execute marketToDto (Some ident) s =
     (let s1 = s\<lparr>calls := calls s @ [ident]\<rparr> in
      case execute ident of
        Inl e \<Rightarrow> getMarketById_catch e s1
      | Inr r \<Rightarrow>
          (case marketToDto r of
             Inl e \<Rightarrow> getMarketById_catch e s1
           | Inr d \<Rightarrow> (Inr (), res_json 200 (Dto d) s1)))"
  by (simp add: getMarketById_def getMarketById_try_def await_execute_def Let_def
      split: sum.split)

lemma getMarketById_reject:
  "market_id = None \<or> market_id = Some [] \<Longrightarrow>
   getMarketById execute marketToDto market_id s =
     (Inr (), res_json 400
        (ErrorDto \<lparr>error = ''Market ID is required'', message = None\<rparr>) s)"
  by (auto simp add: getMarketById_def getMarketById_try_def)

lemma getMarketById_sent:
  "ident \<noteq> [] \<Longrightarrow>
   \<exists>env. getMarketById execute marketToDto (Some ident) s =
       (Inr (), s\<lparr>calls := calls s @ [ident], sent := sent s @ [env]\<rparr>)
     \<and> (status env = 200 \<or> status env = 404 \<or> status env = 500)"
  by (cases "execute ident";
      cases "case execute ident of Inl e \<Rightarrow> Inl e | Inr r \<Rightarrow> marketToDto r")
    (auto simp add: getMarketById_run getMarketById_catch_def res_json_def Let_def
      split: thrown.split)

lemma getMarketById_reply:
  "ident \<noteq> [] \<Longrightarrow>
   sent (snd (getMarketById execute marketToDto (Some ident) s)) =
     sent s @
       [case (case execute ident of
                Inl e \<Rightarrow> Inl e
              | Inr r \<Rightarrow> marketToDto r) of
          Inl e \<Rightarrow>
            (case e of
               NotFoundError m \<Rightarrow>
                 \<lparr>status = 404,
                  body = ErrorDto \<lparr>error = ''Market not found'', message = Some m\<rparr>\<rparr>
             | OtherError m \<Rightarrow>
                 \<lparr>status = 500,
                  body = ErrorDto \<lparr>error = ''Internal server error'', message = Some m\<rparr>\<rparr>
             | NonError p \<Rightarrow>
                 \<lparr>status = 500,
                  body = ErrorDto
                    \<lparr>error = ''Internal server error'',
                     message = Some ''Unknown error''\<rparr>\<rparr>)
        | Inr d \<Rightarrow> \<lparr>status = 200, body = Dto d\<rparr>]"
  by (simp add: getMarketById_run getMarketById_catch_def res_json_def Let_def
      split: sum.split thrown.split)

section \<open>The handlers on a runtime\<close>

text \<open>On the runtime where no write and no logging call throws, they are the handlers above.\<close>

lemma res_json_rt_quiet:
  "res_json_rt \<lparr>json_throws = (\<lambda>env. None), console_error_throws = (\<lambda>e. None)\<rparr> code b s =
     (Inr (), res_json code b s)"
  by (simp add: res_json_rt_def)

lemma getMarkets_catch_rt_quiet:
  "getMarkets_catch_rt \<lparr>json_throws = (\<lambda>env. None), console_error_throws = (\<lambda>e. None)\<rparr> e s =
     getMarkets_catch e s"
  by (simp add: getMarkets_catch_rt_def console_error_rt_def res_json_rt_quiet
      getMarkets_catch_def)

lemma getMarketById_catch_rt_quiet:
  "getMarketById_catch_rt \<lparr>json_throws = (\<lambda>env. None), console_error_throws = (\<lambda>e. None)\<rparr>
       e s =
     getMarketById_catch e s"
  by (simp add: getMarketById_catch_rt_def console_error_rt_def res_json_rt_quiet
      getMarketById_catch_def split: thrown.split)

lemma getMarkets_try_rt_quiet:
  "getMarkets_try_rt \<lparr>json_throws = (\<lambda>env. None), console_error_throws = (\<lambda>e. None)\<rparr>
       execute marketListToDto q s =
     getMarkets_try execute marketListToDto q s"
  by (simp add: getMarkets_try_rt_def getMarkets_try_def res_json_rt_quiet
      split: prod.split sum.split)

lemma getMarketById_try_rt_quiet:
  "getMarketById_try_rt \<lparr>json_throws = (\<lambda>env. None), console_error_throws = (\<lambda>e. None)\<rparr>
       execute marketToDto market_id s =
     getMarketById_try execute marketToDto market_id s"
  by (simp add: getMarketById_try_rt_def getMarketById_try_def res_json_rt_quiet Let_def
      split: prod.split sum.split option.split)

lemma getMarkets_rt_quiet:
  "getMarkets_rt \<lparr>json_throws = (\<lambda>env. None), console_error_throws = (\<lambda>e. None)\<rparr>
       execute marketListToDto q s =
     getMarkets execute marketListToDto q s"
  by (simp add: getMarkets_rt_def getMarkets_def getMarkets_try_rt_quiet
      getMarkets_catch_rt_quiet split: prod.split sum.split)

lemma getMarketById_rt_quiet:
  "getMarketById_rt \<lparr>json_throws = (\<lambda>env. None), console_error_throws = (\<lambda>e. None)\<rparr>
       execute marketToDto market_id s =
     getMarketById execute marketToDto market_id s"
  by (simp add: getMarketById_rt_def getMarketById_def getMarketById_try_rt_quiet
      getMarketById_catch_rt_quiet split: prod.split sum.split)










section \<open>parseInt on some strings\<close>

lemmas parseInt_defs = parseInt_def isWhiteSpace1_def isWhiteSpace2_def isWhiteSpace3_def
  digitValue_def toNumber_def roundToDouble_def excessBits.simps

lemma parseInt_decimal: "parseInt ''10'' = Finite 10"
  by (simp add: parseInt_defs)

lemma parseInt_stops_at_non_digit: "parseInt '' -42px'' = Finite (- 42)"
  by (simp add: parseInt_defs)

lemma parseInt_hexadecimal: "parseInt ''0x1F'' = Finite 31"
  by (simp add: parseInt_defs)

lemma parseInt_no_digit: "parseInt ''abc'' = NaN"
  by (simp add: parseInt_defs)

lemma parseInt_negative_zero: "parseInt ''-0'' = NegZero"
  by (simp add: parseInt_defs)

text \<open>Beyond \<open>2^53\<close> the integer read is rounded: a tie to even, otherwise to nearest.\<close>

lemma parseInt_rounds_tie: "parseInt ''9007199254740993'' = Finite 9007199254740992"
  by (simp add: parseInt_defs)

lemma parseInt_rounds_up: "parseInt ''9007199254740995'' = Finite 9007199254740996"
  by (simp add: parseInt_defs)

text \<open>White space of more than one byte is skipped: U+FEFF, then U+00A0.\<close>

lemma parseInt_skips_unicode_space:
  "parseInt ([CHR 0xEF, CHR 0xBB, CHR 0xBF, CHR 0xC2, CHR 0xA0] @ ''10'') = Finite 10"
  by (simp add: parseInt_defs)

text \<open>A string of 310 digits is beyond every finite double.\<close>

lemma parseInt_overflows:
  "parseInt ''9999999999999999999999999999999999999999999999999999999999999999999999999999999999999999999999999999999999999999999999999999999999999999999999999999999999999999999999999999999999999999999999999999999999999999999999999999999999999999999999999999999999999999999999999999999999999999999999999999999999999999999999'' = Infinity"
  by (simp add: parseInt_defs)

section \<open>The filters, key by key\<close>

text \<open>
  A guarded statement whose body leaves key \<open>k\<close> alone does not change what the
  filters hold at \<open>k\<close>; at its own key it is read off directly.
\<close>

lemma whenTruthy_other: "(\<And>s y. f s y k = y k) \<Longrightarrow> whenTruthy v f x k = x k"
  by (simp add: whenTruthy_def split: option.split)

lemma whenTruthy_apply:
  "whenTruthy v f x k =
     (case v of None \<Rightarrow> x k | Some s \<Rightarrow> if s = [] then x k else f s x k)"
  by (simp add: whenTruthy_def split: option.split)

lemma filters_status:
  "getMarkets_filters q ''status'' =
     (case q ''status'' of
        None \<Rightarrow> None
      | Some v \<Rightarrow> if v = [] then None else Some (JString v))"
  by (simp add: getMarkets_filters_def whenTruthy_other)
    (simp add: whenTruthy_apply whenTruthy_other split: option.split)

lemma filters_creatorId:
  "getMarkets_filters q ''creatorId'' =
     (case q ''creatorId'' of
        None \<Rightarrow> None
      | Some v \<Rightarrow> if v = [] then None else Some (JString v))"
  by (simp add: getMarkets_filters_def whenTruthy_other)
    (simp add: whenTruthy_apply whenTruthy_other split: option.split)

lemma filters_limit:
  "getMarkets_filters q ''limit'' =
     (case q ''limit'' of
        None \<Rightarrow> None
      | Some v \<Rightarrow> if v = [] then None else Some (JNumber (parseInt v)))"
  by (simp add: getMarkets_filters_def whenTruthy_other)
    (simp add: whenTruthy_apply whenTruthy_other split: option.split)

lemma filters_offset:
  "getMarkets_filters q ''offset'' =
     (case q ''offset'' of
        None \<Rightarrow> None
      | Some v \<Rightarrow> if v = [] then None else Some (JNumber (parseInt v)))"
  by (simp add: getMarkets_filters_def whenTruthy_other)
    (simp add: whenTruthy_apply whenTruthy_other split: option.split)

lemma filters_sortBy:
  "getMarkets_filters q ''sortBy'' =
     (case q ''sortBy'' of
        None \<Rightarrow> None
      | Some v \<Rightarrow>
          if v = ''createTms'' \<or> v = ''resolutionTime'' then Some (JString v) else None)"
  by (simp add: getMarkets_filters_def whenTruthy_other)
    (auto simp add: whenTruthy_apply whenTruthy_other split: option.split)

lemma filters_sortOrder:
  "getMarkets_filters q ''sortOrder'' =
     (case q ''sortOrder'' of
        None \<Rightarrow> None
      | Some v \<Rightarrow> if v = ''asc'' \<or> v = ''desc'' then Some (JString v) else None)"
  by (simp add: getMarkets_filters_def whenTruthy_other)
    (auto simp add: whenTruthy_apply whenTruthy_other split: option.split)

lemma filters_other:
  "k \<notin> {''status'', ''creatorId'', ''limit'', ''offset'', ''sortBy'', ''sortOrder''} \<Longrightarrow>
   getMarkets_filters q k = None"
  by (simp add: getMarkets_filters_def whenTruthy_other)

lemmas filters_at = filters_status filters_creatorId filters_limit filters_offset
  filters_sortBy filters_sortOrder

lemma filters_dom:
  "dom (getMarkets_filters q) \<subseteq>
     {''status'', ''creatorId'', ''limit'', ''offset'', ''sortBy'', ''sortOrder''}"
proof
  fix k
  assume "k \<in> dom (getMarkets_filters q)"
  then have present: "getMarkets_filters q k \<noteq> None"
    by (simp add: dom_def)
  show "k \<in> {''status'', ''creatorId'', ''limit'', ''offset'', ''sortBy'', ''sortOrder''}"
  proof (rule ccontr)
    assume "k \<notin> {''status'', ''creatorId'', ''limit'', ''offset'', ''sortBy'', ''sortOrder''}"
    then have "getMarkets_filters q k = None"
      by (rule filters_other)
    with present show False
      by simp
  qed
qed

lemma filters_present:
  assumes "k \<in> dom (getMarkets_filters q)"
  shows "\<exists>v. q k = Some v \<and> v \<noteq> []"
proof -
  have "k \<in> {''status'', ''creatorId'', ''limit'', ''offset'', ''sortBy'', ''sortOrder''}"
    using filters_dom assms by (rule subsetD)
  then have
    "k = ''status'' \<or> k = ''creatorId'' \<or> k = ''limit'' \<or> k = ''offset'' \<or>
     k = ''sortBy'' \<or> k = ''sortOrder''"
    by simp
  moreover have "getMarkets_filters q k \<noteq> None"
    using assms by (simp add: dom_def)
  ultimately show ?thesis
    by (elim disjE) (auto simp add: filters_at split: option.splits if_splits)
qed

section \<open>The identifier check of getMarketById\<close>

text \<open>
  C1. When \<^verbatim>\<open>market_id\<close> is absent or the empty string, \<^verbatim>\<open>getMarketById\<close>
  completes normally having written exactly one envelope, with status 400 and the
  body \<^verbatim>\<open>{error: "Market ID is required"}\<close> without a message field, and the use
  case has not been executed: the record of its calls is as before.
\<close>

theorem getMarketById_missing_id_400:
  "market_id = None \<or> market_id = Some '''' \<Longrightarrow>
   getMarketById execute marketToDto market_id s =
     (Inr (), s\<lparr>sent := sent s @
        [\<lparr>status = 400,
          body = ErrorDto \<lparr>error = ''Market ID is required'', message = None\<rparr>\<rparr>]\<rparr>)
   \<and> calls (snd (getMarketById execute marketToDto market_id s)) = calls s"
  by (simp add: getMarketById_reject res_json_def)

theorem getMarketById_missing_id_400_witness:
  "getMarketById (\<lambda>i. Inr i) (\<lambda>r. Inr r) None \<lparr>calls = [], sent = []\<rparr> =
     (Inr (), \<lparr>calls = [], sent =
        [\<lparr>status = 400,
          body = ErrorDto \<lparr>error = ''Market ID is required'', message = None\<rparr>\<rparr>]\<rparr>)
   \<and> getMarketById (\<lambda>i. Inr i) (\<lambda>r. Inr r) (Some '''') \<lparr>calls = [], sent = []\<rparr> =
     (Inr (), \<lparr>calls = [], sent =
        [\<lparr>status = 400,
          body = ErrorDto \<lparr>error = ''Market ID is required'', message = None\<rparr>\<rparr>]\<rparr>)"
  using
    getMarketById_missing_id_400
      [of None "\<lambda>i. Inr i" "\<lambda>r. Inr r" "\<lparr>calls = [], sent = []\<rparr>"]
    getMarketById_missing_id_400
      [of "Some ''''" "\<lambda>i. Inr i" "\<lambda>r. Inr r" "\<lparr>calls = [], sent = []\<rparr>"]
  by simp

text \<open>
  C10. The check is on absence and emptiness only. Every identifier that is not the
  empty string, a string of blanks such as \<^verbatim>\<open>" "\<close> included, is the argument of
  one execution of the use case, unchanged, and the one envelope written does not
  have status 400.
\<close>

theorem getMarketById_forwards_verbatim:
  "ident \<noteq> [] \<Longrightarrow>
   calls (snd (getMarketById execute marketToDto (Some ident) s)) = calls s @ [ident]
   \<and> (\<exists>env. sent (snd (getMarketById execute marketToDto (Some ident) s)) = sent s @ [env]
        \<and> status env \<noteq> 400)"
  using getMarketById_sent [of ident execute marketToDto s] by auto

theorem getMarketById_forwards_verbatim_witness:
  "calls (snd (getMarketById (\<lambda>i. Inl (NotFoundError i)) (\<lambda>r :: unit. Inr r) (Some '' '')
       \<lparr>calls = [], sent = []\<rparr>)) = ['' '']
   \<and> (\<exists>env :: unit envelope.
        sent (snd (getMarketById (\<lambda>i. Inl (NotFoundError i)) (\<lambda>r :: unit. Inr r)
          (Some '' '') \<lparr>calls = [], sent = []\<rparr>)) = [env] \<and> status env \<noteq> 400)"
  using getMarketById_forwards_verbatim
    [of "'' ''" "\<lambda>i. Inl (NotFoundError i)" "\<lambda>r :: unit. Inr r"
      "\<lparr>calls = [], sent = [] :: unit envelope list\<rparr>"]
  by simp

section \<open>Failures\<close>

text \<open>
  C2. When the identifier is not empty and the use case throws a
  \<^verbatim>\<open>NotFoundError\<close> with message \<open>m\<close>, \<^verbatim>\<open>getMarketById\<close> completes normally
  having executed the use case once and written exactly one envelope, with status 404
  and the body \<^verbatim>\<open>{error: "Market not found", message: m}\<close>.
\<close>

theorem getMarketById_not_found_404:
  "ident \<noteq> [] \<Longrightarrow> execute ident = Inl (NotFoundError m) \<Longrightarrow>
   getMarketById execute marketToDto (Some ident) s =
     (Inr (), s\<lparr>calls := calls s @ [ident],
               sent := sent s @
                 [\<lparr>status = 404,
                   body = ErrorDto \<lparr>error = ''Market not found'', message = Some m\<rparr>\<rparr>]\<rparr>)"
  by (simp add: getMarketById_run getMarketById_catch_def res_json_def)

theorem getMarketById_not_found_404_witness:
  "getMarketById (\<lambda>i. Inl (NotFoundError ''no market m1'')) (\<lambda>r :: unit. Inr r)
       (Some ''m1'') \<lparr>calls = [], sent = []\<rparr> =
     (Inr (), \<lparr>calls = [''m1''], sent =
        [\<lparr>status = 404,
          body = ErrorDto
            \<lparr>error = ''Market not found'', message = Some ''no market m1''\<rparr>\<rparr>]\<rparr>)"
  using getMarketById_not_found_404
    [of "''m1''" "\<lambda>i. Inl (NotFoundError ''no market m1'')" "''no market m1''"
      "\<lambda>r :: unit. Inr r" "\<lparr>calls = [], sent = []\<rparr>"]
  by simp

text \<open>
  C3, amended. Let \<open>e\<close> be a thrown value that is not a \<^verbatim>\<open>NotFoundError\<close>. When
  the use case throws \<open>e\<close>, or returns and the DTO mapping throws \<open>e\<close>, then
  \<^verbatim>\<open>getMarkets\<close>, and \<^verbatim>\<open>getMarketById\<close> on an identifier that is not empty,
  complete normally having written exactly one envelope, with status 500 and the body
  \<^verbatim>\<open>{error: "Internal server error", message: m}\<close>, where \<open>m\<close> is the message of
  \<open>e\<close> when \<open>e\<close> is an instance of \<^verbatim>\<open>Error\<close>, and \<^verbatim>\<open>"Unknown error"\<close> for
  every other thrown value, whether it has a \<^verbatim>\<open>message\<close> property or not.
\<close>

theorem unclassified_failure_500:
  "(\<forall>m. e \<noteq> NotFoundError m) \<Longrightarrow>
   ((execute (getMarkets_filters q) = Inl e \<or>
      (\<exists>r. execute (getMarkets_filters q) = Inr r \<and> marketListToDto r = Inl e)) \<longrightarrow>
    getMarkets execute marketListToDto q s =
      (Inr (), s\<lparr>calls := calls s @ [getMarkets_filters q],
                sent := sent s @
                  [\<lparr>status = 500,
                    body = ErrorDto
                      \<lparr>error = ''Internal server error'',
                       message = Some (case e of OtherError m \<Rightarrow> m
                                       | _ \<Rightarrow> ''Unknown error'')\<rparr>\<rparr>]\<rparr>))
   \<and> ((ident \<noteq> [] \<and>
        (executeById ident = Inl e \<or>
          (\<exists>r. executeById ident = Inr r \<and> marketToDto r = Inl e))) \<longrightarrow>
    getMarketById executeById marketToDto (Some ident) s' =
      (Inr (), s'\<lparr>calls := calls s' @ [ident],
                 sent := sent s' @
                   [\<lparr>status = 500,
                     body = ErrorDto
                       \<lparr>error = ''Internal server error'',
                        message = Some (case e of OtherError m \<Rightarrow> m
                                        | _ \<Rightarrow> ''Unknown error'')\<rparr>\<rparr>]\<rparr>))"
  by (cases e)
    (auto simp add: getMarkets_run getMarkets_catch_def getMarketById_run
      getMarketById_catch_def res_json_def)

theorem unclassified_failure_500_witness:
  "getMarketById (\<lambda>i. Inl (OtherError ''db down'')) (\<lambda>r :: unit. Inr r) (Some ''m1'')
       \<lparr>calls = [], sent = []\<rparr> =
     (Inr (), \<lparr>calls = [''m1''], sent =
        [\<lparr>status = 500,
          body = ErrorDto
            \<lparr>error = ''Internal server error'', message = Some ''db down''\<rparr>\<rparr>]\<rparr>)
   \<and> sent (snd (getMarkets (\<lambda>f. Inl (NonError None)) (\<lambda>r :: unit. Inr r) Map.empty
       \<lparr>calls = [], sent = []\<rparr>)) =
        [\<lparr>status = 500,
          body = ErrorDto
            \<lparr>error = ''Internal server error'', message = Some ''Unknown error''\<rparr>\<rparr>]"
  using
    unclassified_failure_500
      [of "OtherError ''db down''" "\<lambda>f. Inl (OtherError ''db down'')" Map.empty
        "\<lambda>r :: unit. Inr r" "\<lparr>calls = [], sent = []\<rparr>" "''m1''"
        "\<lambda>i. Inl (OtherError ''db down'')" "\<lambda>r :: unit. Inr r"
        "\<lparr>calls = [], sent = []\<rparr>"]
    unclassified_failure_500
      [of "NonError None" "\<lambda>f. Inl (NonError None)" Map.empty
        "\<lambda>r :: unit. Inr r" "\<lparr>calls = [], sent = []\<rparr>" "''m1''"
        "\<lambda>i. Inl (NonError None)" "\<lambda>r :: unit. Inr r"
        "\<lparr>calls = [], sent = []\<rparr>"]
  by simp

text \<open>
  As first stated, C3 has the message of the failure passed on whenever the failure
  carries one. That fails for a value that carries a message and is no instance of
  \<^verbatim>\<open>Error\<close>: when the use case does \<^verbatim>\<open>throw {message: "custom"}\<close>, the test
  \<^verbatim>\<open>error instanceof Error\<close> of line 169 is false and the body written holds
  \<^verbatim>\<open>"Unknown error"\<close>, not \<^verbatim>\<open>"custom"\<close>.
\<close>

theorem unclassified_failure_500_counterexample:
  "sent (snd (getMarketById (\<lambda>i. Inl (NonError (Some ''custom''))) (\<lambda>r :: unit. Inr r)
       (Some ''m1'') \<lparr>calls = [], sent = []\<rparr>)) =
     [\<lparr>status = 500,
       body = ErrorDto
         \<lparr>error = ''Internal server error'', message = Some ''Unknown error''\<rparr>\<rparr>]
   \<and> sent (snd (getMarketById (\<lambda>i. Inl (NonError (Some ''custom''))) (\<lambda>r :: unit. Inr r)
       (Some ''m1'') \<lparr>calls = [], sent = []\<rparr>)) \<noteq>
     [\<lparr>status = 500,
       body = ErrorDto
         \<lparr>error = ''Internal server error'', message = Some ''custom''\<rparr>\<rparr>]"
  by (simp add: getMarketById_reply)

text \<open>
  C4. \<^verbatim>\<open>getMarkets\<close> writes exactly one envelope and its status is 200 or 500,
  never 400 or 404. Whatever the use case throws, a \<^verbatim>\<open>NotFoundError\<close> included,
  the envelope is the 500 one, \<^verbatim>\<open>{error: "Internal server error", message: m}\<close>.
\<close>

theorem getMarkets_status_200_or_500:
  "(\<exists>env. getMarkets execute marketListToDto q s =
        (Inr (), s\<lparr>calls := calls s @ [getMarkets_filters q], sent := sent s @ [env]\<rparr>)
      \<and> (status env = 200 \<or> status env = 500))
   \<and> (\<forall>e. execute (getMarkets_filters q) = Inl e \<longrightarrow>
        sent (snd (getMarkets execute marketListToDto q s)) =
          sent s @
            [\<lparr>status = 500,
              body = ErrorDto
                \<lparr>error = ''Internal server error'',
                 message = Some (case e of NotFoundError m \<Rightarrow> m
                                 | OtherError m \<Rightarrow> m
                                 | NonError p \<Rightarrow> ''Unknown error'')\<rparr>\<rparr>])"
proof
  show "\<exists>env. getMarkets execute marketListToDto q s =
        (Inr (), s\<lparr>calls := calls s @ [getMarkets_filters q], sent := sent s @ [env]\<rparr>)
      \<and> (status env = 200 \<or> status env = 500)"
    by (rule getMarkets_sent)
next
  show "\<forall>e. execute (getMarkets_filters q) = Inl e \<longrightarrow>
        sent (snd (getMarkets execute marketListToDto q s)) =
          sent s @
            [\<lparr>status = 500,
              body = ErrorDto
                \<lparr>error = ''Internal server error'',
                 message = Some (case e of NotFoundError m \<Rightarrow> m
                                 | OtherError m \<Rightarrow> m
                                 | NonError p \<Rightarrow> ''Unknown error'')\<rparr>\<rparr>]"
    by (simp add: getMarkets_run getMarkets_catch_def res_json_def)
qed

theorem getMarkets_status_200_or_500_witness:
  "sent (snd (getMarkets (\<lambda>f. Inl (NotFoundError ''no markets'')) (\<lambda>r :: unit. Inr r)
       Map.empty \<lparr>calls = [], sent = []\<rparr>)) =
     [\<lparr>status = 500,
       body = ErrorDto
         \<lparr>error = ''Internal server error'', message = Some ''no markets''\<rparr>\<rparr>]"
  using getMarkets_status_200_or_500
    [of "\<lambda>f. Inl (NotFoundError ''no markets'')" "\<lambda>r :: unit. Inr r" Map.empty
      "\<lparr>calls = [], sent = []\<rparr>"]
  by simp

section \<open>The filters passed to the list use case\<close>

text \<open>
  C5. For every query, \<^verbatim>\<open>getMarkets\<close> executes the use case once, on filters
  whose keys are among \<^verbatim>\<open>status\<close>, \<^verbatim>\<open>creatorId\<close>, \<^verbatim>\<open>limit\<close>,
  \<^verbatim>\<open>offset\<close>, \<^verbatim>\<open>sortBy\<close> and \<^verbatim>\<open>sortOrder\<close>; a key of the filters is a key
  of the query whose value is present and not the empty string. So a key of the query
  outside the six is never a key of the filters.
\<close>

theorem getMarkets_filters_recognized_keys:
  "calls (snd (getMarkets execute marketListToDto q s)) = calls s @ [getMarkets_filters q]
   \<and> dom (getMarkets_filters q) \<subseteq>
       {''status'', ''creatorId'', ''limit'', ''offset'', ''sortBy'', ''sortOrder''}
   \<and> (\<forall>k \<in> dom (getMarkets_filters q). \<exists>v. q k = Some v \<and> v \<noteq> [])"
proof (intro conjI ballI)
  show "calls (snd (getMarkets execute marketListToDto q s)) = calls s @ [getMarkets_filters q]"
    by (rule getMarkets_calls)
  show "dom (getMarkets_filters q) \<subseteq>
       {''status'', ''creatorId'', ''limit'', ''offset'', ''sortBy'', ''sortOrder''}"
    by (rule filters_dom)
  fix k
  assume "k \<in> dom (getMarkets_filters q)"
  then show "\<exists>v. q k = Some v \<and> v \<noteq> []"
    by (rule filters_present)
qed

theorem getMarkets_filters_recognized_keys_witness:
  "calls (snd (getMarkets (\<lambda>f. Inr ()) (\<lambda>r. Inr r)
       [''status'' \<mapsto> ''open'', ''page'' \<mapsto> ''2'', ''limit'' \<mapsto> '''']
       \<lparr>calls = [], sent = []\<rparr>)) =
     [getMarkets_filters [''status'' \<mapsto> ''open'', ''page'' \<mapsto> ''2'', ''limit'' \<mapsto> '''']]
   \<and> ''page'' \<notin> dom (getMarkets_filters
         [''status'' \<mapsto> ''open'', ''page'' \<mapsto> ''2'', ''limit'' \<mapsto> ''''])
   \<and> ''limit'' \<notin> dom (getMarkets_filters
         [''status'' \<mapsto> ''open'', ''page'' \<mapsto> ''2'', ''limit'' \<mapsto> ''''])
   \<and> ''status'' \<in> dom (getMarkets_filters
         [''status'' \<mapsto> ''open'', ''page'' \<mapsto> ''2'', ''limit'' \<mapsto> ''''])"
proof -
  let ?q = "[''status'' \<mapsto> ''open'', ''page'' \<mapsto> ''2'', ''limit'' \<mapsto> '''']"
  note keys = getMarkets_filters_recognized_keys
    [of "\<lambda>f. Inr ()" "\<lambda>r. Inr r" ?q "\<lparr>calls = [], sent = []\<rparr>"]
  from keys have called:
    "calls (snd (getMarkets (\<lambda>f. Inr ()) (\<lambda>r. Inr r) ?q \<lparr>calls = [], sent = []\<rparr>)) =
       [getMarkets_filters ?q]"
    by simp
  from keys have sub:
    "dom (getMarkets_filters ?q) \<subseteq>
       {''status'', ''creatorId'', ''limit'', ''offset'', ''sortBy'', ''sortOrder''}"
    by (elim conjE)
  from keys have given:
    "\<forall>k \<in> dom (getMarkets_filters ?q). \<exists>v. ?q k = Some v \<and> v \<noteq> []"
    by (elim conjE)
  have "''page'' \<notin> {''status'', ''creatorId'', ''limit'', ''offset'', ''sortBy'', ''sortOrder''}"
    by simp
  with sub have page: "''page'' \<notin> dom (getMarkets_filters ?q)"
    by (rule contra_subsetD)
  have limit: "''limit'' \<notin> dom (getMarkets_filters ?q)"
  proof
    assume "''limit'' \<in> dom (getMarkets_filters ?q)"
    with given have "\<exists>v. ?q ''limit'' = Some v \<and> v \<noteq> []"
      by (rule bspec)
    then show False
      by simp
  qed
  have "''status'' \<in> dom (getMarkets_filters ?q)"
    by (simp add: dom_def filters_status)
  with called page limit show ?thesis
    by (intro conjI)
qed

text \<open>
  C6. The filters passed to the use case hold \<^verbatim>\<open>sortBy\<close> only when the query
  gives it as exactly \<^verbatim>\<open>createTms\<close> or \<^verbatim>\<open>resolutionTime\<close>, and
  \<^verbatim>\<open>sortOrder\<close> only when the query gives it as exactly \<^verbatim>\<open>asc\<close> or
  \<^verbatim>\<open>desc\<close>; the value held is the one given. Any other value leaves the key out
  of the filters, and the handler raises no error for it: the use case is still
  executed, and when it and the DTO mapping return, the answer is the 200 envelope.
\<close>

theorem getMarkets_sort_enumerated:
  "calls (snd (getMarkets execute marketListToDto q s)) = calls s @ [getMarkets_filters q]
   \<and> (\<forall>x. getMarkets_filters q ''sortBy'' = Some x \<longrightarrow>
        (\<exists>v. q ''sortBy'' = Some v \<and> x = JString v \<and>
             (v = ''createTms'' \<or> v = ''resolutionTime'')))
   \<and> (\<forall>x. getMarkets_filters q ''sortOrder'' = Some x \<longrightarrow>
        (\<exists>v. q ''sortOrder'' = Some v \<and> x = JString v \<and> (v = ''asc'' \<or> v = ''desc'')))
   \<and> (\<forall>v. q ''sortBy'' = Some v \<and> v \<noteq> ''createTms'' \<and> v \<noteq> ''resolutionTime'' \<longrightarrow>
        getMarkets_filters q ''sortBy'' = None)
   \<and> (\<forall>v. q ''sortOrder'' = Some v \<and> v \<noteq> ''asc'' \<and> v \<noteq> ''desc'' \<longrightarrow>
        getMarkets_filters q ''sortOrder'' = None)
   \<and> (\<forall>r d. execute (getMarkets_filters q) = Inr r \<and> marketListToDto r = Inr d \<longrightarrow>
        sent (snd (getMarkets execute marketListToDto q s)) =
          sent s @ [\<lparr>status = 200, body = Dto d\<rparr>])"
proof (intro conjI)
  show "calls (snd (getMarkets execute marketListToDto q s)) = calls s @ [getMarkets_filters q]"
    by (rule getMarkets_calls)
  show "\<forall>x. getMarkets_filters q ''sortBy'' = Some x \<longrightarrow>
        (\<exists>v. q ''sortBy'' = Some v \<and> x = JString v \<and>
             (v = ''createTms'' \<or> v = ''resolutionTime''))"
    by (auto simp add: filters_sortBy split: option.splits if_splits)
  show "\<forall>x. getMarkets_filters q ''sortOrder'' = Some x \<longrightarrow>
        (\<exists>v. q ''sortOrder'' = Some v \<and> x = JString v \<and> (v = ''asc'' \<or> v = ''desc''))"
    by (auto simp add: filters_sortOrder split: option.splits if_splits)
  show "\<forall>v. q ''sortBy'' = Some v \<and> v \<noteq> ''createTms'' \<and> v \<noteq> ''resolutionTime'' \<longrightarrow>
        getMarkets_filters q ''sortBy'' = None"
    by (simp add: filters_sortBy)
  show "\<forall>v. q ''sortOrder'' = Some v \<and> v \<noteq> ''asc'' \<and> v \<noteq> ''desc'' \<longrightarrow>
        getMarkets_filters q ''sortOrder'' = None"
    by (simp add: filters_sortOrder)
  show "\<forall>r d. execute (getMarkets_filters q) = Inr r \<and> marketListToDto r = Inr d \<longrightarrow>
        sent (snd (getMarkets execute marketListToDto q s)) =
          sent s @ [\<lparr>status = 200, body = Dto d\<rparr>]"
    by (simp add: getMarkets_run res_json_def)
qed

theorem getMarkets_sort_enumerated_witness:
  "getMarkets_filters [''sortBy'' \<mapsto> ''price'', ''sortOrder'' \<mapsto> ''DESC''] ''sortBy'' = None
   \<and> getMarkets_filters [''sortBy'' \<mapsto> ''price'', ''sortOrder'' \<mapsto> ''DESC''] ''sortOrder'' =
       None
   \<and> sent (snd (getMarkets (\<lambda>f. Inr ()) (\<lambda>r. Inr r)
        [''sortBy'' \<mapsto> ''price'', ''sortOrder'' \<mapsto> ''DESC''] \<lparr>calls = [], sent = []\<rparr>)) =
       [\<lparr>status = 200, body = Dto ()\<rparr>]"
  using getMarkets_sort_enumerated
    [of "\<lambda>f. Inr ()" "\<lambda>r. Inr r" "[''sortBy'' \<mapsto> ''price'', ''sortOrder'' \<mapsto> ''DESC'']"
      "\<lparr>calls = [], sent = []\<rparr>"]
  by simp

text \<open>
  C7. When the query gives \<^verbatim>\<open>limit\<close> (or \<^verbatim>\<open>offset\<close>) as a string that is
  not empty, the filters passed to the use case hold under that key the Number that
  \<^verbatim>\<open>parseInt\<close> makes of the string, whatever it is: no range is checked, and
  \<^verbatim>\<open>NaN\<close>, the result for a string with no leading digits, is stored and passed on
  like any other. The one envelope written does not have status 400.
\<close>

theorem getMarkets_limit_offset_parseInt:
  "calls (snd (getMarkets execute marketListToDto q s)) = calls s @ [getMarkets_filters q]
   \<and> (\<forall>v. q ''limit'' = Some v \<and> v \<noteq> [] \<longrightarrow>
        getMarkets_filters q ''limit'' = Some (JNumber (parseInt v)))
   \<and> (\<forall>v. q ''offset'' = Some v \<and> v \<noteq> [] \<longrightarrow>
        getMarkets_filters q ''offset'' = Some (JNumber (parseInt v)))
   \<and> (\<exists>env. sent (snd (getMarkets execute marketListToDto q s)) = sent s @ [env]
        \<and> status env \<noteq> 400)"
proof (intro conjI)
  show "calls (snd (getMarkets execute marketListToDto q s)) = calls s @ [getMarkets_filters q]"
    by (rule getMarkets_calls)
  show "\<forall>v. q ''limit'' = Some v \<and> v \<noteq> [] \<longrightarrow>
        getMarkets_filters q ''limit'' = Some (JNumber (parseInt v))"
    by (simp add: filters_limit)
  show "\<forall>v. q ''offset'' = Some v \<and> v \<noteq> [] \<longrightarrow>
        getMarkets_filters q ''offset'' = Some (JNumber (parseInt v))"
    by (simp add: filters_offset)
  from getMarkets_sent [of execute marketListToDto q s]
  show "\<exists>env. sent (snd (getMarkets execute marketListToDto q s)) = sent s @ [env]
        \<and> status env \<noteq> 400"
    by auto
qed

theorem getMarkets_limit_offset_parseInt_witness:
  "getMarkets_filters
       [''limit'' \<mapsto> ''10'', ''offset'' \<mapsto> ''0'', ''sortBy'' \<mapsto> ''createTms'',
        ''sortOrder'' \<mapsto> ''desc''] ''limit'' = Some (JNumber (Finite 10))
   \<and> getMarkets_filters
       [''limit'' \<mapsto> ''10'', ''offset'' \<mapsto> ''0'', ''sortBy'' \<mapsto> ''createTms'',
        ''sortOrder'' \<mapsto> ''desc''] ''offset'' = Some (JNumber (Finite 0))
   \<and> getMarkets_filters [''limit'' \<mapsto> ''abc'', ''offset'' \<mapsto> ''-5''] ''limit'' =
       Some (JNumber NaN)
   \<and> getMarkets_filters [''limit'' \<mapsto> ''abc'', ''offset'' \<mapsto> ''-5''] ''offset'' =
       Some (JNumber (Finite (- 5)))
   \<and> getMarkets_filters [''limit'' \<mapsto> ''9007199254740993'', ''offset'' \<mapsto> ''-0'']
       ''limit'' = Some (JNumber (Finite 9007199254740992))
   \<and> getMarkets_filters [''limit'' \<mapsto> ''9007199254740993'', ''offset'' \<mapsto> ''-0'']
       ''offset'' = Some (JNumber NegZero)
   \<and> calls (snd (getMarkets (\<lambda>f. Inr ()) (\<lambda>r. Inr r)
        [''limit'' \<mapsto> ''abc'', ''offset'' \<mapsto> ''-5''] \<lparr>calls = [], sent = []\<rparr>)) =
       [getMarkets_filters [''limit'' \<mapsto> ''abc'', ''offset'' \<mapsto> ''-5'']]"
  using
    getMarkets_limit_offset_parseInt
      [of "\<lambda>f. Inr ()" "\<lambda>r. Inr r"
        "[''limit'' \<mapsto> ''10'', ''offset'' \<mapsto> ''0'', ''sortBy'' \<mapsto> ''createTms'',
          ''sortOrder'' \<mapsto> ''desc'']" "\<lparr>calls = [], sent = []\<rparr>"]
    getMarkets_limit_offset_parseInt
      [of "\<lambda>f. Inr ()" "\<lambda>r. Inr r" "[''limit'' \<mapsto> ''abc'', ''offset'' \<mapsto> ''-5'']"
        "\<lparr>calls = [], sent = []\<rparr>"]
    getMarkets_limit_offset_parseInt
      [of "\<lambda>f. Inr ()" "\<lambda>r. Inr r"
        "[''limit'' \<mapsto> ''9007199254740993'', ''offset'' \<mapsto> ''-0'']"
        "\<lparr>calls = [], sent = []\<rparr>"]
  by (simp add: parseInt_defs)

section \<open>Both handlers: completion and determinism\<close>




text \<open>
  C9. The envelope depends on the raw input and on the outcome of the use case only.
  Take two calls of a handler on the same input, from any two states, with use cases
  that give the same outcome (the same result or the same thrown value) on the
  argument the handler passes, and with the same DTO mapping: the two calls write the
  same envelope, status and body. A second call made right after the first is a case
  of it.
\<close>

theorem handlers_deterministic:
  "(execute1 (getMarkets_filters q) = execute2 (getMarkets_filters q) \<longrightarrow>
      (\<exists>env. sent (snd (getMarkets execute1 marketListToDto q s)) = sent s @ [env]
         \<and> sent (snd (getMarkets execute2 marketListToDto q s')) = sent s' @ [env]))
   \<and> (map_option byId1 market_id = map_option byId2 market_id \<longrightarrow>
      (\<exists>env. sent (snd (getMarketById byId1 marketToDto market_id t)) = sent t @ [env]
         \<and> sent (snd (getMarketById byId2 marketToDto market_id t')) = sent t' @ [env]))"
proof (intro conjI impI)
  assume same: "execute1 (getMarkets_filters q) = execute2 (getMarkets_filters q)"
  show "\<exists>env. sent (snd (getMarkets execute1 marketListToDto q s)) = sent s @ [env]
         \<and> sent (snd (getMarkets execute2 marketListToDto q s')) = sent s' @ [env]"
    unfolding getMarkets_reply same by blast
next
  assume same: "map_option byId1 market_id = map_option byId2 market_id"
  show "\<exists>env. sent (snd (getMarketById byId1 marketToDto market_id t)) = sent t @ [env]
         \<and> sent (snd (getMarketById byId2 marketToDto market_id t')) = sent t' @ [env]"
  proof (cases "market_id = None \<or> market_id = Some []")
    case True
    then show ?thesis
      by (simp add: getMarketById_reject res_json_def)
  next
    case False
    then obtain ident where ident: "market_id = Some ident" "ident \<noteq> []"
      by auto
    with same have same_outcome: "byId1 ident = byId2 ident"
      by simp
    show ?thesis
      unfolding ident(1) getMarketById_reply [OF ident(2)] same_outcome by blast
  qed
qed

theorem handlers_deterministic_witness:
  "(\<exists>env. sent (snd (getMarkets (\<lambda>f. Inl (OtherError ''db down'')) (\<lambda>r :: unit. Inr r)
         [''limit'' \<mapsto> ''10''] \<lparr>calls = [], sent = []\<rparr>)) = [env :: unit envelope]
      \<and> sent (snd (getMarkets (\<lambda>f. Inl (OtherError ''db down'')) (\<lambda>r :: unit. Inr r)
         [''limit'' \<mapsto> ''10'']
         (snd (getMarkets (\<lambda>f. Inl (OtherError ''db down'')) (\<lambda>r :: unit. Inr r)
           [''limit'' \<mapsto> ''10''] \<lparr>calls = [], sent = []\<rparr>)))) = [env, env])
   \<and> (\<exists>env. sent (snd (getMarketById (\<lambda>i. Inr ()) (\<lambda>r. Inr r) (Some ''m1'')
         \<lparr>calls = [], sent = []\<rparr>)) = [env :: unit envelope]
      \<and> sent (snd (getMarketById (\<lambda>i. Inr ()) (\<lambda>r. Inr r) (Some ''m1'')
         (snd (getMarketById (\<lambda>i. Inr ()) (\<lambda>r. Inr r) (Some ''m1'')
           \<lparr>calls = [], sent = []\<rparr>)))) = [env, env])"
proof -
  let ?list = "getMarkets (\<lambda>f. Inl (OtherError ''db down'')) (\<lambda>r :: unit. Inr r)
    [''limit'' \<mapsto> ''10'']"
  let ?item = "getMarketById (\<lambda>i. Inr ()) (\<lambda>r :: unit. Inr r) (Some ''m1'')"
  let ?s = "\<lparr>calls = [], sent = [] :: unit envelope list\<rparr>"
  note twice = handlers_deterministic
    [of "\<lambda>f. Inl (OtherError ''db down'')" "[''limit'' \<mapsto> ''10'']"
      "\<lambda>f. Inl (OtherError ''db down'')" "\<lambda>r :: unit. Inr r" ?s "snd (?list ?s)"
      "\<lambda>i. Inr ()" "Some ''m1''" "\<lambda>i. Inr ()" "\<lambda>r :: unit. Inr r" ?s "snd (?item ?s)"]
  from twice obtain env where
    "sent (snd (?list ?s)) = sent ?s @ [env]"
    "sent (snd (?list (snd (?list ?s)))) = sent (snd (?list ?s)) @ [env]"
    by auto
  then have list: "\<exists>env. sent (snd (?list ?s)) = [env]
      \<and> sent (snd (?list (snd (?list ?s)))) = [env, env]"
    by simp
  from twice obtain env where
    "sent (snd (?item ?s)) = sent ?s @ [env]"
    "sent (snd (?item (snd (?item ?s)))) = sent (snd (?item ?s)) @ [env]"
    by auto
  then have "\<exists>env. sent (snd (?item ?s)) = [env]
      \<and> sent (snd (?item (snd (?item ?s)))) = [env, env]"
    by simp
  with list show ?thesis
    by (intro conjI)
qed

end
